theory Spec2Isabelle
  imports Complex_Main
begin

section \<open>The virtual whiteboard: data model\<close>

text \<open>
  The whiteboard widget keeps five pieces of component state (the committed paths, the
  stroke in progress, the drawing flag and the two history stacks) besides the three
  toolbar selections. Its handlers are modelled as functions from the state a handler
  reads to the state it leaves behind: a handler runs to completion and the component is
  rendered again before the next event is delivered, so each handler reads what its
  predecessor wrote. JavaScript numbers are modelled as reals.
\<close>

datatype tool = Pen | Eraser | Rectangle | Circle | Text | Move

text \<open>A point \<open>{x, y}\<close>; the fields are named \<open>px\<close> and \<open>py\<close> here.\<close>

record point =
  px :: real
  py :: real

text \<open>The interface \<open>DrawingPath\<close>; its field \<open>id\<close> is named \<open>ident\<close> here.\<close>

record drawingPath =
  ident :: string
  tool :: tool
  points :: "point list"
  color :: string
  strokeWidth :: real
  timestamp :: nat

text \<open>
  The component state. The selected width, \<open>strokeWidth\<close> in the source, is
  \<open>strokeWidthSel\<close> here, apart from the field of a path.
\<close>

record whiteboard =
  isDrawing :: bool
  currentTool :: tool
  strokeColor :: string
  strokeWidthSel :: real
  paths :: "drawingPath list"
  undoStack :: "drawingPath list list"
  redoStack :: "drawingPath list list"
  currentPath :: "drawingPath option"

definition initial :: whiteboard where
  "initial = \<lparr>isDrawing = False, currentTool = Pen, strokeColor = ''#000000'',
     strokeWidthSel = 2, paths = [], undoStack = [], redoStack = [], currentPath = None\<rparr>"

text \<open>
  What a mouse handler reads from its event: the client coordinates, and the bounding
  rectangle (left, top) of the canvas element, which is absent when the canvas reference
  is null.
\<close>

record mouseEvent =
  clientX :: real
  clientY :: real
  canvasRect :: "(real \<times> real) option"

definition getMousePos :: "mouseEvent \<Rightarrow> point" where
  "getMousePos e =
     (case canvasRect e of
        None \<Rightarrow> \<lparr>px = 0, py = 0\<rparr>
      | Some (rleft, rtop) \<Rightarrow> \<lparr>px = clientX e - rleft, py = clientY e - rtop\<rparr>)"

subsection \<open>Decimal printing of a time stamp\<close>

definition digit :: "nat \<Rightarrow> char" where
  "digit d = char_of (48 + d)"

function toString :: "nat \<Rightarrow> string" where
  "toString n = (if n < 10 then [digit n] else toString (n div 10) @ [digit (n mod 10)])"
  by pat_completeness auto
termination
  by (relation "measure (\<lambda>n. n)") auto

declare toString.simps [simp del]

section \<open>Input capture\<close>

text \<open>
  \<open>startDrawing\<close> reads the clock twice, once for the identifier and once for the
  time stamp; both readings are arguments.
\<close>

definition startDrawing :: "bool \<Rightarrow> mouseEvent \<Rightarrow> nat \<Rightarrow> nat \<Rightarrow> whiteboard \<Rightarrow> whiteboard" where
  "startDrawing isReadOnly e now1 now2 s =
     (if isReadOnly then s
      else
        let pos = getMousePos e;
            newPath = \<lparr>ident = toString now1, tool = currentTool s, points = [pos],
                       color = strokeColor s, strokeWidth = strokeWidthSel s,
                       timestamp = now2\<rparr>
        in s\<lparr>isDrawing := True, currentPath := Some newPath\<rparr>)"

definition draw :: "bool \<Rightarrow> mouseEvent \<Rightarrow> whiteboard \<Rightarrow> whiteboard" where
  "draw isReadOnly e s =
     (case currentPath s of
        None \<Rightarrow> s
      | Some cp \<Rightarrow>
          if \<not> isDrawing s \<or> isReadOnly then s
          else
            let pos = getMousePos e;
                updatedPath = cp\<lparr>points := points cp @ [pos]\<rparr>
            in s\<lparr>currentPath := Some updatedPath\<rparr>)"

definition stopDrawing :: "whiteboard \<Rightarrow> whiteboard" where
  "stopDrawing s =
     (case currentPath s of
        None \<Rightarrow> s
      | Some cp \<Rightarrow>
          if \<not> isDrawing s then s
          else s\<lparr>isDrawing := False,
                 undoStack := undoStack s @ [paths s],
                 redoStack := [],
                 paths := paths s @ [cp],
                 currentPath := None\<rparr>)"

section \<open>History\<close>

definition undo :: "whiteboard \<Rightarrow> whiteboard" where
  "undo s =
     (if length (undoStack s) = 0 then s
      else
        let previousState = last (undoStack s)
        in s\<lparr>redoStack := paths s # redoStack s,
             paths := previousState,
             undoStack := butlast (undoStack s)\<rparr>)"

definition redo :: "whiteboard \<Rightarrow> whiteboard" where
  "redo s =
     (if length (redoStack s) = 0 then s
      else
        let nextState = hd (redoStack s)
        in s\<lparr>undoStack := undoStack s @ [paths s],
             paths := nextState,
             redoStack := tl (redoStack s)\<rparr>)"

definition clearCanvas :: "whiteboard \<Rightarrow> whiteboard" where
  "clearCanvas s =
     s\<lparr>undoStack := undoStack s @ [paths s], redoStack := [], paths := []\<rparr>"

section \<open>Events\<close>

text \<open>
  The events the component reacts to. The canvas handles the four mouse events whether or
  not the board is read-only; the toolbar exists only on a board that is not read-only,
  and its undo, redo and clear buttons are disabled while the undo stack, the redo stack
  and the committed paths, respectively, are empty. Mouse-up and mouse-leave are bound to
  the same handler.
\<close>

datatype event =
    MouseDown mouseEvent nat nat
  | MouseMove mouseEvent
  | MouseUp
  | MouseLeave
  | ClickUndo
  | ClickRedo
  | ClickClear
  | SetCurrentTool tool
  | SetStrokeColor string
  | SetStrokeWidth real

fun handle :: "bool \<Rightarrow> whiteboard \<Rightarrow> event \<Rightarrow> whiteboard" where
  "handle ro s (MouseDown e now1 now2) = startDrawing ro e now1 now2 s"
| "handle ro s (MouseMove e) = draw ro e s"
| "handle ro s MouseUp = stopDrawing s"
| "handle ro s MouseLeave = stopDrawing s"
| "handle ro s ClickUndo = (if ro \<or> length (undoStack s) = 0 then s else undo s)"
| "handle ro s ClickRedo = (if ro \<or> length (redoStack s) = 0 then s else redo s)"
| "handle ro s ClickClear = (if ro \<or> length (paths s) = 0 then s else clearCanvas s)"
| "handle ro s (SetCurrentTool t) = (if ro then s else s\<lparr>currentTool := t\<rparr>)"
| "handle ro s (SetStrokeColor c) = (if ro then s else s\<lparr>strokeColor := c\<rparr>)"
| "handle ro s (SetStrokeWidth w) = (if ro then s else s\<lparr>strokeWidthSel := w\<rparr>)"

definition run :: "bool \<Rightarrow> event list \<Rightarrow> whiteboard \<Rightarrow> whiteboard" where
  "run ro es s = foldl (handle ro) s es"

section \<open>The canvas context\<close>

text \<open>
  The renderer draws through a two-dimensional canvas context. The context is modelled by
  the part of its standard behaviour that the renderer exercises: the drawing state that
  \<open>save\<close> and \<open>restore\<close> stack, the current default path, and the list of
  paint operations carried out so far, each with the drawing state it was painted in.
  \<^item> \<open>clearRect\<close> does nothing when the width or the height is zero, and never touches
    the current default path;
  \<^item> \<open>strokeRect\<close> does nothing when both are zero, and paints a rectangle of its own
    without touching the current default path;
  \<^item> \<open>beginPath\<close> empties the current default path;
  \<^item> \<open>stroke\<close> paints the current default path;
  \<^item> assigning a width that is not positive is ignored.
  The colours, caps, joins and compositing modes the renderer assigns are valid values
  (the colours of a path come from the palette), so these assignments are stored as they
  are. The radius passed to \<open>arc\<close> is a square root, hence never negative.
\<close>

record drawState =
  strokeStyle :: string
  lineWidth :: real
  lineCap :: string
  lineJoin :: string
  globalCompositeOperation :: string

datatype segment =
    MoveTo real real
  | LineTo real real
  | Arc real real real real real

datatype paint =
    ClearRect real real real real
  | StrokeRect real real real real drawState
  | Stroke "segment list" drawState

record context2D =
  cur :: drawState
  currentDefaultPath :: "segment list"
  stateStack :: "drawState list"
  painted :: "paint list"

definition save :: "context2D \<Rightarrow> context2D" where
  "save c = c\<lparr>stateStack := cur c # stateStack c\<rparr>"

definition restore :: "context2D \<Rightarrow> context2D" where
  "restore c = (case stateStack c of [] \<Rightarrow> c | d # ds \<Rightarrow> c\<lparr>cur := d, stateStack := ds\<rparr>)"

definition set_strokeStyle :: "string \<Rightarrow> context2D \<Rightarrow> context2D" where
  "set_strokeStyle v c = c\<lparr>cur := (cur c)\<lparr>strokeStyle := v\<rparr>\<rparr>"

definition set_lineWidth :: "real \<Rightarrow> context2D \<Rightarrow> context2D" where
  "set_lineWidth v c = (if 0 < v then c\<lparr>cur := (cur c)\<lparr>lineWidth := v\<rparr>\<rparr> else c)"

definition set_lineCap :: "string \<Rightarrow> context2D \<Rightarrow> context2D" where
  "set_lineCap v c = c\<lparr>cur := (cur c)\<lparr>lineCap := v\<rparr>\<rparr>"

definition set_lineJoin :: "string \<Rightarrow> context2D \<Rightarrow> context2D" where
  "set_lineJoin v c = c\<lparr>cur := (cur c)\<lparr>lineJoin := v\<rparr>\<rparr>"

definition set_globalCompositeOperation :: "string \<Rightarrow> context2D \<Rightarrow> context2D" where
  "set_globalCompositeOperation v c = c\<lparr>cur := (cur c)\<lparr>globalCompositeOperation := v\<rparr>\<rparr>"

definition beginPath :: "context2D \<Rightarrow> context2D" where
  "beginPath c = c\<lparr>currentDefaultPath := []\<rparr>"

definition moveTo :: "real \<Rightarrow> real \<Rightarrow> context2D \<Rightarrow> context2D" where
  "moveTo x y c = c\<lparr>currentDefaultPath := currentDefaultPath c @ [MoveTo x y]\<rparr>"

definition lineTo :: "real \<Rightarrow> real \<Rightarrow> context2D \<Rightarrow> context2D" where
  "lineTo x y c =
     (if currentDefaultPath c = [] then c\<lparr>currentDefaultPath := [MoveTo x y]\<rparr>
      else c\<lparr>currentDefaultPath := currentDefaultPath c @ [LineTo x y]\<rparr>)"

definition arc :: "real \<Rightarrow> real \<Rightarrow> real \<Rightarrow> real \<Rightarrow> real \<Rightarrow> context2D \<Rightarrow> context2D" where
  "arc x y radius startAngle endAngle c =
     c\<lparr>currentDefaultPath := currentDefaultPath c @ [Arc x y radius startAngle endAngle]\<rparr>"

definition clearRect :: "real \<Rightarrow> real \<Rightarrow> real \<Rightarrow> real \<Rightarrow> context2D \<Rightarrow> context2D" where
  "clearRect x y w h c =
     (if w = 0 \<or> h = 0 then c else c\<lparr>painted := painted c @ [ClearRect x y w h]\<rparr>)"

definition strokeRect :: "real \<Rightarrow> real \<Rightarrow> real \<Rightarrow> real \<Rightarrow> context2D \<Rightarrow> context2D" where
  "strokeRect x y w h c =
     (if w = 0 \<and> h = 0 then c else c\<lparr>painted := painted c @ [StrokeRect x y w h (cur c)]\<rparr>)"

definition stroke :: "context2D \<Rightarrow> context2D" where
  "stroke c = c\<lparr>painted := painted c @ [Stroke (currentDefaultPath c) (cur c)]\<rparr>"

text \<open>A fresh context: the default drawing state, an empty path, nothing painted.\<close>

definition freshContext :: context2D where
  "freshContext =
     \<lparr>cur = \<lparr>strokeStyle = ''#000000'', lineWidth = 1, lineCap = ''butt'',
              lineJoin = ''miter'', globalCompositeOperation = ''source-over''\<rparr>,
      currentDefaultPath = [], stateStack = [], painted = []\<rparr>"

section \<open>The renderer\<close>

text \<open>The loop \<open>for (let i = 1; i < path.points.length; i++) ctx.lineTo(...)\<close>, from \<open>i\<close>.\<close>

function lineToLoop :: "nat \<Rightarrow> point list \<Rightarrow> context2D \<Rightarrow> context2D" where
  "lineToLoop i pts c =
     (if i < length pts then lineToLoop (Suc i) pts (lineTo (px (pts ! i)) (py (pts ! i)) c)
      else c)"
  by pat_completeness auto
termination
  by (relation "measure (\<lambda>(i, pts, c). length pts - i)") auto

declare lineToLoop.simps [simp del]

definition drawPath :: "context2D \<Rightarrow> drawingPath \<Rightarrow> context2D" where
  "drawPath ctx path =
     (if length (points path) < 2 then ctx
      else
        let ctx = save ctx;
            ctx = set_strokeStyle (color path) ctx;
            ctx = set_lineWidth (strokeWidth path) ctx;
            ctx = set_lineCap ''round'' ctx;
            ctx = set_lineJoin ''round'' ctx;
            ctx = (if tool path = Eraser
                   then set_globalCompositeOperation ''destination-out'' ctx
                   else set_globalCompositeOperation ''source-over'' ctx);
            ctx = beginPath ctx;
            ctx = moveTo (px (points path ! 0)) (py (points path ! 0)) ctx;
            ctx = lineToLoop 1 (points path) ctx;
            ctx =
              (if tool path = Rectangle \<and> length (points path) \<ge> 2 then
                 let start = points path ! 0;
                     end = points path ! (length (points path) - 1);
                     ctx = clearRect 0 0 0 0 ctx
                 in strokeRect (px start) (py start) (px end - px start) (py end - py start) ctx
               else if tool path = Circle \<and> length (points path) \<ge> 2 then
                 let start = points path ! 0;
                     end = points path ! (length (points path) - 1);
                     radius = sqrt ((px end - px start) ^ 2 + (py end - py start) ^ 2);
                     ctx = clearRect 0 0 0 0 ctx;
                     ctx = beginPath ctx
                 in arc (px start) (py start) radius 0 (2 * pi) ctx
               else ctx);
            ctx = stroke ctx
        in restore ctx)"

section \<open>Auxiliary notions for the statements\<close>

text \<open>The events bound to \<open>stopDrawing\<close>, and the clicks on the three history buttons.\<close>

fun isEnd :: "event \<Rightarrow> bool" where
  "isEnd MouseUp = True"
| "isEnd MouseLeave = True"
| "isEnd _ = False"

fun isHistory :: "event \<Rightarrow> bool" where
  "isHistory ClickUndo = True"
| "isHistory ClickRedo = True"
| "isHistory ClickClear = True"
| "isHistory _ = False"

text \<open>
  The number of commits in a run: the events bound to \<open>stopDrawing\<close> that arrive
  while a gesture is active.
\<close>

fun commits :: "bool \<Rightarrow> event list \<Rightarrow> whiteboard \<Rightarrow> nat" where
  "commits ro [] s = 0"
| "commits ro (e # es) s =
     (if isEnd e \<and> isDrawing s \<and> currentPath s \<noteq> None then 1 else 0)
       + commits ro es (handle ro s e)"

text \<open>
  A path is started by a run of events when it has a first point, and that point, its
  identifier and its time stamp are those of one mouse-down event of the run.
\<close>

definition startedBy :: "event list \<Rightarrow> drawingPath \<Rightarrow> bool" where
  "startedBy es p \<longleftrightarrow>
     points p \<noteq> [] \<and>
     (\<exists>ev\<in>set es.
        case ev of
          MouseDown e now1 now2 \<Rightarrow>
            hd (points p) = getMousePos e \<and> ident p = toString now1 \<and> timestamp p = now2
        | _ \<Rightarrow> False)"

definition historyInv :: "event list \<Rightarrow> whiteboard \<Rightarrow> bool" where
  "historyInv es s \<longleftrightarrow>
     (\<forall>p\<in>set (paths s). startedBy es p) \<and>
     (\<forall>ps\<in>set (undoStack s). \<forall>p\<in>set ps. startedBy es p) \<and>
     (\<forall>ps\<in>set (redoStack s). \<forall>p\<in>set ps. startedBy es p) \<and>
     (\<forall>p\<in>set_option (currentPath s). startedBy es p)"

text \<open>
  The drawing state in force after the renderer's five assignments, and the polyline
  that \<open>moveTo\<close> and the \<open>lineTo\<close> loop build from the points of a path.
\<close>

definition strokeState :: "drawState \<Rightarrow> drawingPath \<Rightarrow> drawState" where
  "strokeState d p =
     d\<lparr>strokeStyle := color p,
       lineWidth := (if 0 < strokeWidth p then strokeWidth p else lineWidth d),
       lineCap := ''round'', lineJoin := ''round'',
       globalCompositeOperation :=
         (if tool p = Eraser then ''destination-out'' else ''source-over'')\<rparr>"

definition lineSegs :: "point list \<Rightarrow> segment list" where
  "lineSegs ps = map (\<lambda>p. LineTo (px p) (py p)) ps"

definition polyline :: "point list \<Rightarrow> segment list" where
  "polyline pts = MoveTo (px (pts ! 0)) (py (pts ! 0)) # lineSegs (drop 1 pts)"

subsection \<open>Sample inputs\<close>

definition pointerAt :: "real \<Rightarrow> real \<Rightarrow> mouseEvent" where
  "pointerAt x y = \<lparr>clientX = x, clientY = y, canvasRect = Some (0, 0)\<rparr>"

definition samplePath :: "tool \<Rightarrow> point list \<Rightarrow> drawingPath" where
  "samplePath t pts =
     \<lparr>ident = ''7'', tool = t, points = pts, color = ''#FF0000'', strokeWidth = 4,
      timestamp = 7\<rparr>"

text \<open>The drawing state in which \<open>samplePath\<close> is stroked on a fresh context.\<close>

definition sampleState :: drawState where
  "sampleState =
     \<lparr>strokeStyle = ''#FF0000'', lineWidth = 4, lineCap = ''round'', lineJoin = ''round'',
      globalCompositeOperation = ''source-over''\<rparr>"

text \<open>One click without a drag, and a stroke of three points ended by leaving the canvas.\<close>

definition clickGesture :: "event list" where
  "clickGesture = [MouseDown (pointerAt 5 5) 1 1, MouseUp]"

definition strokeGesture :: "event list" where
  "strokeGesture =
     [MouseDown (pointerAt 0 0) 2 2, MouseMove (pointerAt 10 0), MouseMove (pointerAt 10 10),
      MouseLeave]"

text \<open>Boards reached from the initial one: one with both stacks filled, one with three paths.\<close>

definition sampleBoard :: whiteboard where
  "sampleBoard = run False (clickGesture @ strokeGesture @ [ClickUndo]) initial"

definition threePaths :: whiteboard where
  "threePaths = run False (clickGesture @ strokeGesture @ clickGesture) initial"

lemmas board_defs =
  startDrawing_def draw_def stopDrawing_def undo_def redo_def clearCanvas_def

section \<open>Undo and redo are inverse to each other\<close>

lemma redo_undo_id: "undoStack s \<noteq> [] \<Longrightarrow> redo (undo s) = s"
  by (simp add: undo_def redo_def)

lemma undo_redo_id: "redoStack s \<noteq> [] \<Longrightarrow> undo (redo s) = s"
  by (simp add: undo_def redo_def)

lemma length_undoStack_undo: "length (undoStack (undo s)) = length (undoStack s) - 1"
  by (simp add: undo_def)

lemma redo_undo_funpow: "n \<le> length (undoStack s) \<Longrightarrow> (redo ^^ n) ((undo ^^ n) s) = s"
proof (induction n arbitrary: s)
  case 0
  then show ?case by simp
next
  case (Suc n)
  have ne: "undoStack s \<noteq> []"
    using Suc.prems by auto
  have "n \<le> length (undoStack (undo s))"
    using Suc.prems by (simp add: length_undoStack_undo)
  then have "(redo ^^ n) ((undo ^^ n) (undo s)) = undo s"
    by (rule Suc.IH)
  then have "(redo ^^ Suc n) ((undo ^^ Suc n) s) = redo (undo s)"
    by (simp add: funpow_swap1)
  then show ?case
    using ne by (simp add: redo_undo_id)
qed

section \<open>Runs of events\<close>

lemma run_Nil: "run ro [] s = s"
  by (simp add: run_def)

lemma run_Cons: "run ro (e # es) s = run ro es (handle ro s e)"
  by (simp add: run_def)

lemma run_snoc: "run ro (es @ [e]) s = handle ro (run ro es s) e"
  by (simp add: run_def)

lemma length_undoStack_handle:
  "\<not> isHistory e \<Longrightarrow>
   length (undoStack (handle ro s e)) =
   length (undoStack s) + (if isEnd e \<and> isDrawing s \<and> currentPath s \<noteq> None then 1 else 0)"
  by (cases e) (auto simp: startDrawing_def draw_def stopDrawing_def Let_def split: option.splits)

lemma length_undoStack_run:
  "\<forall>e\<in>set es. \<not> isHistory e \<Longrightarrow>
   length (undoStack (run ro es s)) = length (undoStack s) + commits ro es s"
proof (induction es arbitrary: s)
  case Nil
  then show ?case by (simp add: run_Nil)
next
  case (Cons e es)
  then show ?case
    by (simp add: run_Cons length_undoStack_handle del: handle.simps)
qed

lemma readonly_inert: "run True es initial = initial"
proof (induction es rule: rev_induct)
  case Nil
  then show ?case by (simp add: run_Nil)
next
  case (snoc e es)
  then show ?case
    by (cases e) (simp_all add: run_snoc startDrawing_def draw_def stopDrawing_def initial_def)
qed

section \<open>Every stored path was started by a mouse-down event\<close>

lemma startedBy_mono: "startedBy es p \<Longrightarrow> startedBy (es @ [e]) p"
  by (auto simp: startedBy_def)

lemma historyInv_mono: "historyInv es s \<Longrightarrow> historyInv (es @ [e]) s"
  by (simp add: historyInv_def startedBy_mono)

lemma historyInv_startDrawing:
  "historyInv es s \<Longrightarrow> historyInv (es @ [MouseDown e n1 n2]) (startDrawing ro e n1 n2 s)"
proof -
  assume a: "historyInv es s"
  have m: "historyInv (es @ [MouseDown e n1 n2]) s"
    using a by (rule historyInv_mono)
  show ?thesis
  proof (cases ro)
    case True
    then show ?thesis using m by (simp add: startDrawing_def)
  next
    case False
    then show ?thesis
      using m by (simp add: startDrawing_def historyInv_def Let_def startedBy_def)
  qed
qed

lemma startedBy_append_point:
  assumes "startedBy es p"
  shows "startedBy es (p\<lparr>points := points p @ [q]\<rparr>)"
proof -
  from assms obtain ev where ev: "ev \<in> set es" and ne: "points p \<noteq> []"
    and c: "case ev of
              MouseDown e now1 now2 \<Rightarrow>
                hd (points p) = getMousePos e \<and> ident p = toString now1 \<and> timestamp p = now2
            | _ \<Rightarrow> False"
    by (auto simp: startedBy_def)
  from c ne have "case ev of
      MouseDown e now1 now2 \<Rightarrow>
        hd (points (p\<lparr>points := points p @ [q]\<rparr>)) = getMousePos e \<and>
        ident (p\<lparr>points := points p @ [q]\<rparr>) = toString now1 \<and>
        timestamp (p\<lparr>points := points p @ [q]\<rparr>) = now2
    | _ \<Rightarrow> False"
    by (cases ev) simp_all
  with ev ne show ?thesis
    unfolding startedBy_def by (intro conjI bexI [of _ ev]) simp_all
qed

lemma historyInv_draw: "historyInv es s \<Longrightarrow> historyInv es (draw ro e s)"
  by (auto simp: draw_def historyInv_def Let_def startedBy_append_point split: option.splits)

lemma historyInv_stopDrawing: "historyInv es s \<Longrightarrow> historyInv es (stopDrawing s)"
  by (auto simp: stopDrawing_def historyInv_def split: option.splits)

lemma historyInv_undo: "historyInv es s \<Longrightarrow> historyInv es (undo s)"
proof (cases "undoStack s = []")
  case True
  then show "historyInv es s \<Longrightarrow> ?thesis" by (simp add: undo_def)
next
  case False
  assume a: "historyInv es s"
  have l: "last (undoStack s) \<in> set (undoStack s)"
    using False by simp
  have b: "\<And>ps. ps \<in> set (butlast (undoStack s)) \<Longrightarrow> ps \<in> set (undoStack s)"
    by (rule in_set_butlastD)
  show ?thesis
    using a False l b by (auto simp: undo_def historyInv_def Let_def)
qed

lemma historyInv_redo: "historyInv es s \<Longrightarrow> historyInv es (redo s)"
proof (cases "redoStack s = []")
  case True
  then show "historyInv es s \<Longrightarrow> ?thesis" by (simp add: redo_def)
next
  case False
  assume a: "historyInv es s"
  have l: "hd (redoStack s) \<in> set (redoStack s)"
    using False by simp
  have b: "\<And>ps. ps \<in> set (tl (redoStack s)) \<Longrightarrow> ps \<in> set (redoStack s)"
    using False by (simp add: list.set_sel(2))
  show ?thesis
    using a False l b by (auto simp: redo_def historyInv_def Let_def)
qed

lemma historyInv_clearCanvas: "historyInv es s \<Longrightarrow> historyInv es (clearCanvas s)"
  by (auto simp: clearCanvas_def historyInv_def)

lemma historyInv_selection:
  "historyInv es s \<Longrightarrow> historyInv es (s\<lparr>currentTool := t\<rparr>)"
  "historyInv es s \<Longrightarrow> historyInv es (s\<lparr>strokeColor := c\<rparr>)"
  "historyInv es s \<Longrightarrow> historyInv es (s\<lparr>strokeWidthSel := w\<rparr>)"
  by (simp_all add: historyInv_def)

lemma historyInv_handle: "historyInv es s \<Longrightarrow> historyInv (es @ [e]) (handle ro s e)"
proof (cases e)
  case (MouseDown m n1 n2)
  then show "historyInv es s \<Longrightarrow> ?thesis"
    by (simp add: historyInv_startDrawing)
qed (simp_all add: historyInv_mono historyInv_draw historyInv_stopDrawing historyInv_undo
      historyInv_redo historyInv_clearCanvas historyInv_selection)

lemma historyInv_initial: "historyInv [] initial"
  by (simp add: historyInv_def initial_def)

lemma historyInv_run: "historyInv es (run ro es initial)"
proof (induction es rule: rev_induct)
  case Nil
  then show ?case by (simp add: run_Nil historyInv_initial)
next
  case (snoc e es)
  then show ?case by (simp add: run_snoc historyInv_handle del: handle.simps)
qed

section \<open>What the renderer paints\<close>

lemma lineToLoop_done: "length pts \<le> i \<Longrightarrow> lineToLoop i pts c = c"
  by (subst lineToLoop.simps) simp

lemma lineToLoop_step:
  "i < length pts \<Longrightarrow>
   lineToLoop i pts c = lineToLoop (Suc i) pts (lineTo (px (pts ! i)) (py (pts ! i)) c)"
  by (subst lineToLoop.simps) simp

lemma lineToLoop_path:
  "currentDefaultPath c \<noteq> [] \<Longrightarrow>
   lineToLoop i pts c = c\<lparr>currentDefaultPath := currentDefaultPath c @ lineSegs (drop i pts)\<rparr>"
proof (induction i pts c rule: lineToLoop.induct)
  case (1 i pts c)
  show ?case
  proof (cases "i < length pts")
    case True
    let ?c' = "lineTo (px (pts ! i)) (py (pts ! i)) c"
    have ne: "currentDefaultPath ?c' \<noteq> []"
      by (simp add: lineTo_def)
    have "lineToLoop i pts c = lineToLoop (Suc i) pts ?c'"
      using True by (rule lineToLoop_step)
    also have "\<dots> = ?c'\<lparr>currentDefaultPath := currentDefaultPath ?c' @ lineSegs (drop (Suc i) pts)\<rparr>"
      using "1.IH" [OF True ne] .
    also have "\<dots> = c\<lparr>currentDefaultPath := currentDefaultPath c @ lineSegs (drop i pts)\<rparr>"
      using True "1.prems"
      by (simp add: lineTo_def lineSegs_def Cons_nth_drop_Suc [symmetric])
    finally show ?thesis .
  next
    case False
    then show ?thesis
      by (simp add: lineToLoop_done lineSegs_def)
  qed
qed


lemmas canvas_defs =
  save_def restore_def set_strokeStyle_def set_lineWidth_def set_lineCap_def set_lineJoin_def
  set_globalCompositeOperation_def beginPath_def moveTo_def clearRect_def strokeRect_def
  stroke_def arc_def

lemma drawPath_rectangle:
  assumes "tool p = Rectangle" and "2 \<le> length (points p)"
  shows "drawPath c p =
    c\<lparr>currentDefaultPath := polyline (points p),
      painted := painted c @
        (let start = points p ! 0; end = points p ! (length (points p) - 1) in
         if px end - px start = 0 \<and> py end - py start = 0 then []
         else [StrokeRect (px start) (py start) (px end - px start) (py end - py start)
                 (strokeState (cur c) p)]) @
        [Stroke (polyline (points p)) (strokeState (cur c) p)]\<rparr>"
  using assms
  by (simp add: drawPath_def Let_def canvas_defs lineToLoop_path strokeState_def polyline_def)

lemma drawPath_circle:
  assumes "tool p = Circle" and "2 \<le> length (points p)"
  shows "drawPath c p =
    (let start = points p ! 0; end = points p ! (length (points p) - 1);
         radius = sqrt ((px end - px start) ^ 2 + (py end - py start) ^ 2);
         shape = [Arc (px start) (py start) radius 0 (2 * pi)]
     in c\<lparr>currentDefaultPath := shape,
          painted := painted c @ [Stroke shape (strokeState (cur c) p)]\<rparr>)"
  using assms
  by (simp add: drawPath_def Let_def canvas_defs lineToLoop_path strokeState_def)

lemma drawPath_polyline:
  assumes "tool p \<noteq> Rectangle" and "tool p \<noteq> Circle" and "2 \<le> length (points p)"
  shows "drawPath c p =
    c\<lparr>currentDefaultPath := polyline (points p),
      painted := painted c @ [Stroke (polyline (points p)) (strokeState (cur c) p)]\<rparr>"
  using assms
  by (simp add: drawPath_def Let_def canvas_defs lineToLoop_path strokeState_def polyline_def)

section \<open>Reversibility of undo and redo\<close>

lemma sampleBoard_stacks: "undoStack sampleBoard \<noteq> [] \<and> redoStack sampleBoard \<noteq> []"
  by (simp add: sampleBoard_def run_def clickGesture_def strokeGesture_def initial_def
      board_defs Let_def)

lemma sample_commits: "commits False (strokeGesture @ clickGesture) sampleBoard = 2"
  by (simp add: sampleBoard_def run_def clickGesture_def strokeGesture_def initial_def
      board_defs Let_def)

text \<open>
  Claim C1, as stated, fails: it promises that one \<open>undo\<close> followed by one \<open>redo\<close>, or
  one \<open>redo\<close> followed by one \<open>undo\<close>, restores the committed paths in every state.
  After a click and an undo the undo stack is empty and the redo stack is not, so
  \<open>undo\<close> does nothing and the \<open>redo\<close> that follows brings the path back; right after
  a commit the redo stack is empty, so \<open>redo\<close> does nothing and the \<open>undo\<close> that
  follows removes the path.
\<close>

theorem undo_redo_unconditional_counterexample:
  "paths (redo (undo (run False (clickGesture @ [ClickUndo]) initial)))
     \<noteq> paths (run False (clickGesture @ [ClickUndo]) initial) \<and>
   paths (undo (redo (run False clickGesture initial))) \<noteq> paths (run False clickGesture initial)"
  by (simp add: run_def clickGesture_def initial_def board_defs Let_def)

text \<open>
  Claim C1, amended. From any state, after a run of events without a click on undo, redo
  or clear, in which \<open>N\<close> commits took place, \<open>N\<close> undos followed by \<open>N\<close> redos
  give back the state after the last commit: the same committed paths in the same order,
  and the same stacks. One \<open>undo\<close> on a non-empty undo stack followed by \<open>redo\<close>
  restores the state, and so does one \<open>redo\<close> on a non-empty redo stack followed by
  \<open>undo\<close>.
\<close>

theorem undo_redo_reversible:
  "((\<forall>e\<in>set es. \<not> isHistory e) \<longrightarrow>
      (redo ^^ commits ro es s) ((undo ^^ commits ro es s) (run ro es s)) = run ro es s) \<and>
   (undoStack s \<noteq> [] \<longrightarrow> redo (undo s) = s) \<and>
   (redoStack s \<noteq> [] \<longrightarrow> undo (redo s) = s)"
  by (simp add: redo_undo_funpow length_undoStack_run redo_undo_id undo_redo_id)

theorem undo_redo_reversible_witness:
  "filter isHistory (strokeGesture @ clickGesture) = [] \<and>
   undoStack sampleBoard \<noteq> [] \<and> redoStack sampleBoard \<noteq> [] \<and>
   commits False (strokeGesture @ clickGesture) sampleBoard = 2 \<and>
   (redo ^^ 2) ((undo ^^ 2) (run False (strokeGesture @ clickGesture) sampleBoard)) =
     run False (strokeGesture @ clickGesture) sampleBoard \<and>
   redo (undo sampleBoard) = sampleBoard \<and> undo (redo sampleBoard) = sampleBoard"
proof -
  have h: "\<forall>e\<in>set (strokeGesture @ clickGesture). \<not> isHistory e"
    by (simp add: clickGesture_def strokeGesture_def)
  show ?thesis
    using undo_redo_reversible [of "strokeGesture @ clickGesture" False sampleBoard]
      h sampleBoard_stacks sample_commits
    by simp
qed

section \<open>Redo invalidation\<close>

text \<open>
  Claim C3. After \<open>stopDrawing\<close> with an active gesture, and after \<open>clearCanvas\<close>, the
  redo stack is empty whatever it held before. Every event that is neither a click on
  undo, redo or clear nor a mouse-up or mouse-leave that ends an active gesture leaves
  both stacks as they are; this includes a mouse-up or mouse-leave with no gesture
  active, on which \<open>stopDrawing\<close> returns the state it was given.
\<close>

theorem redo_invalidated:
  "(isDrawing s \<and> currentPath s \<noteq> None \<longrightarrow> redoStack (stopDrawing s) = []) \<and>
   redoStack (clearCanvas s) = [] \<and>
   (\<not> isHistory e \<and> \<not> (isEnd e \<and> isDrawing s \<and> currentPath s \<noteq> None) \<longrightarrow>
      undoStack (handle ro s e) = undoStack s \<and> redoStack (handle ro s e) = redoStack s) \<and>
   (\<not> (isDrawing s \<and> currentPath s \<noteq> None) \<longrightarrow> stopDrawing s = s)"
  by (cases e) (auto simp: board_defs Let_def split: option.splits)

theorem redo_invalidated_witness:
  "isDrawing (run False (clickGesture @ [ClickUndo, MouseDown (pointerAt 1 1) 3 3]) initial) \<and>
   currentPath (run False (clickGesture @ [ClickUndo, MouseDown (pointerAt 1 1) 3 3]) initial) \<noteq> None \<and>
   redoStack (run False (clickGesture @ [ClickUndo, MouseDown (pointerAt 1 1) 3 3]) initial) \<noteq> [] \<and>
   redoStack (stopDrawing (run False (clickGesture @ [ClickUndo, MouseDown (pointerAt 1 1) 3 3]) initial)) = [] \<and>
   \<not> isEnd (MouseMove (pointerAt 2 2)) \<and> \<not> isHistory (MouseMove (pointerAt 2 2)) \<and>
   redoStack (handle False (run False (clickGesture @ [ClickUndo, MouseDown (pointerAt 1 1) 3 3]) initial)
      (MouseMove (pointerAt 2 2))) =
   redoStack (run False (clickGesture @ [ClickUndo, MouseDown (pointerAt 1 1) 3 3]) initial) \<and>
   isEnd MouseUp \<and> \<not> isHistory MouseUp \<and>
   \<not> isDrawing (run False (clickGesture @ [ClickUndo]) initial) \<and>
   redoStack (run False (clickGesture @ [ClickUndo]) initial) \<noteq> [] \<and>
   redoStack (handle False (run False (clickGesture @ [ClickUndo]) initial) MouseUp) =
     redoStack (run False (clickGesture @ [ClickUndo]) initial) \<and>
   undoStack (handle False (run False (clickGesture @ [ClickUndo]) initial) MouseUp) =
     undoStack (run False (clickGesture @ [ClickUndo]) initial) \<and>
   stopDrawing (run False (clickGesture @ [ClickUndo]) initial) =
     run False (clickGesture @ [ClickUndo]) initial"
  using redo_invalidated [of "run False (clickGesture @ [ClickUndo, MouseDown (pointerAt 1 1) 3 3]) initial"
      "MouseMove (pointerAt 2 2)" False]
    redo_invalidated [of "run False (clickGesture @ [ClickUndo]) initial" MouseUp False]
  by (simp add: run_def clickGesture_def initial_def board_defs Let_def)

section \<open>Clearing the canvas\<close>

lemma length_threePaths: "length (paths threePaths) = 3"
  by (simp add: threePaths_def run_def clickGesture_def strokeGesture_def initial_def
      board_defs Let_def)

text \<open>
  Claim C4. On a board with three committed paths, \<open>clearCanvas\<close> empties the committed
  paths, appends the three-path sequence to the undo stack and empties the redo stack;
  one \<open>undo\<close> right after brings the three paths back.
\<close>

theorem clear_semantics:
  assumes "length (paths s) = 3"
  shows "paths (clearCanvas s) = [] \<and>
         undoStack (clearCanvas s) = undoStack s @ [paths s] \<and>
         redoStack (clearCanvas s) = [] \<and>
         paths (undo (clearCanvas s)) = paths s \<and>
         length (paths (undo (clearCanvas s))) = 3"
  using assms by (simp add: clearCanvas_def undo_def)

theorem clear_semantics_witness:
  "length (paths threePaths) = 3 \<and> paths (clearCanvas threePaths) = [] \<and>
   paths (undo (clearCanvas threePaths)) = paths threePaths"
  using clear_semantics [OF length_threePaths] length_threePaths by simp

section \<open>No-ops on empty stacks\<close>

text \<open>
  Claim C5. With an empty undo stack, \<open>undo\<close> returns the state it was given, so the
  committed paths and both stacks are unchanged; with an empty redo stack, \<open>redo\<close>
  does the same. Both are total functions with no error result: the source has no
  \<open>throw\<close>, and reads each stack only after testing its length.
\<close>

theorem empty_stack_noop:
  "(undoStack s = [] \<longrightarrow> undo s = s) \<and> (redoStack s = [] \<longrightarrow> redo s = s)"
  by (simp add: undo_def redo_def)

theorem empty_stack_noop_witness:
  "undoStack initial = [] \<and> undo initial = initial \<and>
   redoStack initial = [] \<and> redo initial = initial"
  using empty_stack_noop [of initial] by (simp add: initial_def)

section \<open>Leaving the canvas\<close>

text \<open>
  Claim C6. Mouse-leave runs \<open>stopDrawing\<close>, as mouse-up does: an active gesture is
  committed, not discarded. A gesture begun on a writable board, extended twice and ended
  by mouse-leave adds exactly one path, with those three points, and leaves the state
  that ending it by mouse-up leaves.
\<close>

theorem pointer_leave_commits:
  "handle ro s MouseLeave = stopDrawing s \<and>
   handle ro s MouseLeave = handle ro s MouseUp \<and>
   (isDrawing s \<and> currentPath s = Some cp \<longrightarrow>
      paths (handle ro s MouseLeave) = paths s @ [cp] \<and>
      currentPath (handle ro s MouseLeave) = None) \<and>
   (\<not> ro \<longrightarrow>
      paths (run ro [MouseDown e0 now1 now2, MouseMove e1, MouseMove e2, MouseLeave] s) =
        paths s @
        [\<lparr>ident = toString now1, tool = currentTool s,
          points = [getMousePos e0, getMousePos e1, getMousePos e2],
          color = strokeColor s, strokeWidth = strokeWidthSel s, timestamp = now2\<rparr>] \<and>
      run ro [MouseDown e0 now1 now2, MouseMove e1, MouseMove e2, MouseLeave] s =
        run ro [MouseDown e0 now1 now2, MouseMove e1, MouseMove e2, MouseUp] s)"
  by (simp add: run_def board_defs Let_def)

theorem pointer_leave_commits_witness:
  "isDrawing (run False [MouseDown (pointerAt 5 5) 1 1] initial) \<and>
   (\<exists>cp. currentPath (run False [MouseDown (pointerAt 5 5) 1 1] initial) = Some cp \<and>
      paths (handle False (run False [MouseDown (pointerAt 5 5) 1 1] initial) MouseLeave) = [cp]) \<and>
   length (paths (run False strokeGesture initial)) = 1 \<and>
   map (\<lambda>p. length (points p)) (paths (run False strokeGesture initial)) = [3]"
  using pointer_leave_commits [of False "run False [MouseDown (pointerAt 5 5) 1 1] initial"
      "the (currentPath (run False [MouseDown (pointerAt 5 5) 1 1] initial))"]
    pointer_leave_commits [of False initial _ "pointerAt 0 0" 2 2 "pointerAt 10 0" "pointerAt 10 10"]
  by (simp add: run_def strokeGesture_def initial_def board_defs Let_def)

section \<open>Degenerate gestures\<close>

text \<open>
  Claim C8. Ending a gesture whose path has no point or one point still appends that path
  to the committed paths and pushes a snapshot on the undo stack, so the path counts
  toward the number of paths and takes part in the history; the renderer leaves the
  context untouched for a path with fewer than two points.
\<close>

theorem degenerate_gesture_committed:
  "(isDrawing s \<and> currentPath s = Some cp \<and> length (points cp) \<le> 1 \<longrightarrow>
      paths (stopDrawing s) = paths s @ [cp] \<and>
      undoStack (stopDrawing s) = undoStack s @ [paths s] \<and>
      redoStack (stopDrawing s) = [] \<and>
      length (paths (stopDrawing s)) = length (paths s) + 1) \<and>
   (length (points p) < 2 \<longrightarrow> drawPath ctx p = ctx)"
  by (simp add: stopDrawing_def drawPath_def)

theorem degenerate_gesture_committed_witness:
  "isDrawing (run False [MouseDown (pointerAt 5 5) 1 1] initial) \<and>
   currentPath (run False [MouseDown (pointerAt 5 5) 1 1] initial) =
     Some (samplePath Pen [\<lparr>px = 5, py = 5\<rparr>]\<lparr>ident := toString 1, color := ''#000000'',
             strokeWidth := 2, timestamp := 1\<rparr>) \<and>
   length (points (samplePath Pen [\<lparr>px = 5, py = 5\<rparr>])) \<le> 1 \<and>
   length (paths (stopDrawing (run False [MouseDown (pointerAt 5 5) 1 1] initial))) = 1 \<and>
   drawPath freshContext (samplePath Pen [\<lparr>px = 5, py = 5\<rparr>]) = freshContext"
  using degenerate_gesture_committed [of "run False [MouseDown (pointerAt 5 5) 1 1] initial"
      "samplePath Pen [\<lparr>px = 5, py = 5\<rparr>]\<lparr>ident := toString 1, color := ''#000000'',
             strokeWidth := 2, timestamp := 1\<rparr>" "samplePath Pen [\<lparr>px = 5, py = 5\<rparr>]" freshContext]
  by (simp add: run_def initial_def startDrawing_def Let_def samplePath_def getMousePos_def pointerAt_def)

section \<open>A mouse-down during a gesture\<close>

text \<open>
  Claim C9. On a writable board, \<open>startDrawing\<close> during an active gesture replaces the
  path in progress by a fresh path of one point, and leaves the committed paths and both
  stacks as they are. The state it yields is the one it yields when no gesture is active,
  so nothing of the replaced path can be committed later. (On a read-only board no
  gesture is ever active: see \<open>readonly_inert\<close>.)
\<close>

theorem restart_discards_gesture:
  assumes "\<not> ro" and "isDrawing s" and "currentPath s = Some old"
  shows "currentPath (startDrawing ro e now1 now2 s) =
           Some \<lparr>ident = toString now1, tool = currentTool s, points = [getMousePos e],
                 color = strokeColor s, strokeWidth = strokeWidthSel s, timestamp = now2\<rparr> \<and>
         isDrawing (startDrawing ro e now1 now2 s) \<and>
         paths (startDrawing ro e now1 now2 s) = paths s \<and>
         undoStack (startDrawing ro e now1 now2 s) = undoStack s \<and>
         redoStack (startDrawing ro e now1 now2 s) = redoStack s \<and>
         startDrawing ro e now1 now2 s =
           startDrawing ro e now1 now2 (s\<lparr>isDrawing := False, currentPath := None\<rparr>)"
  using assms by (simp add: startDrawing_def Let_def)

theorem restart_discards_gesture_witness:
  "isDrawing (run False [MouseDown (pointerAt 5 5) 1 1, MouseMove (pointerAt 6 6)] initial) \<and>
   currentPath (run False [MouseDown (pointerAt 5 5) 1 1, MouseMove (pointerAt 6 6)] initial) \<noteq> None \<and>
   paths (run False [MouseDown (pointerAt 5 5) 1 1, MouseMove (pointerAt 6 6),
                     MouseDown (pointerAt 9 9) 2 2, MouseUp] initial) =
     [\<lparr>ident = toString 2, tool = Pen, points = [\<lparr>px = 9, py = 9\<rparr>], color = ''#000000'',
       strokeWidth = 2, timestamp = 2\<rparr>]"
proof -
  let ?s = "run False [MouseDown (pointerAt 5 5) 1 1, MouseMove (pointerAt 6 6)] initial"
  have a: "isDrawing ?s"
    by (simp add: run_def initial_def board_defs Let_def)
  have b: "currentPath ?s = Some (the (currentPath ?s))"
    by (simp add: run_def initial_def board_defs Let_def)
  have n: "\<not> False" by simp
  show ?thesis
    using restart_discards_gesture [OF n a b, of "pointerAt 9 9" 2 2] a
    by (simp add: run_def initial_def board_defs Let_def getMousePos_def pointerAt_def)
qed

section \<open>Committed paths have a first point\<close>

text \<open>
  Claim C10. After any run of events from the initial board, every committed path has at
  least one point, and its first point is the position of a mouse-down event of the run,
  the one whose clock readings are the identifier and the time stamp of the path.
\<close>

theorem committed_paths_started:
  "\<forall>p\<in>set (paths (run ro es initial)).
     1 \<le> length (points p) \<and>
     (\<exists>ev\<in>set es.
        case ev of
          MouseDown e now1 now2 \<Rightarrow>
            hd (points p) = getMousePos e \<and> ident p = toString now1 \<and> timestamp p = now2
        | _ \<Rightarrow> False)"
proof
  fix p
  assume "p \<in> set (paths (run ro es initial))"
  then have "startedBy es p"
    using historyInv_run [of es ro] by (simp add: historyInv_def)
  then show "1 \<le> length (points p) \<and>
     (\<exists>ev\<in>set es.
        case ev of
          MouseDown e now1 now2 \<Rightarrow>
            hd (points p) = getMousePos e \<and> ident p = toString now1 \<and> timestamp p = now2
        | _ \<Rightarrow> False)"
    by (cases "points p") (simp_all add: startedBy_def)
qed

theorem committed_paths_started_witness:
  "length (paths (run False (clickGesture @ strokeGesture) initial)) = 2 \<and>
   list_all (\<lambda>p. 1 \<le> length (points p) \<and>
       list_ex (\<lambda>ev. case ev of
                  MouseDown e now1 now2 \<Rightarrow>
                    hd (points p) = getMousePos e \<and> ident p = toString now1 \<and>
                    timestamp p = now2
                | _ \<Rightarrow> False)
         (clickGesture @ strokeGesture))
     (paths (run False (clickGesture @ strokeGesture) initial))"
proof -
  have "length (paths (run False (clickGesture @ strokeGesture) initial)) = 2"
    by (simp add: run_def clickGesture_def strokeGesture_def initial_def board_defs Let_def)
  then show ?thesis
    using committed_paths_started [of False "clickGesture @ strokeGesture"]
    by (simp only: list_all_iff list_ex_iff simp_thms)
qed

section \<open>Rectangles and circles\<close>

lemma circle_ignores_intermediate_points:
  assumes "tool p = Circle" and "2 \<le> length (points p)"
  shows "drawPath c p =
         drawPath c (p\<lparr>points := [points p ! 0, points p ! (length (points p) - 1)]\<rparr>)"
  using assms by (simp add: drawPath_circle Let_def strokeState_def)

lemma sqrt_3_4: "sqrt ((3 - 0)\<^sup>2 + (4 - 0)\<^sup>2) = (5::real)"
proof -
  have "(3 - 0)\<^sup>2 + (4 - 0)\<^sup>2 = (5::real)\<^sup>2"
    by simp
  then show ?thesis
    by simp
qed

lemma painted_freshContext: "painted freshContext = []"
  by (simp add: freshContext_def)

lemma strokeState_sample:
  "t \<noteq> Eraser \<Longrightarrow> strokeState (cur freshContext) (samplePath t pts) = sampleState"
  by (simp add: strokeState_def freshContext_def samplePath_def sampleState_def)

text \<open>
  Claim C2, evaluated on a rectangle with an intermediate point. The renderer builds the
  polyline through all points before it looks at the tool. For a rectangle it then calls
  \<open>clearRect\<close> on an area of size zero, which does nothing, and \<open>strokeRect\<close>, which
  paints the rectangle and leaves the current path alone; the closing \<open>stroke\<close> paints
  the polyline too. The intermediate point (30,80), outside the rectangle, is therefore
  part of the drawing, which differs from the drawing of the first and the last point
  alone. For a circle the intermediate points are ignored, since \<open>beginPath\<close> discards
  the polyline before the arc is added: lemma \<open>circle_ignores_intermediate_points\<close>.
\<close>

theorem rectangle_strokes_intermediate_points:
  "painted (drawPath freshContext
      (samplePath Rectangle [\<lparr>px = 10, py = 10\<rparr>, \<lparr>px = 30, py = 80\<rparr>, \<lparr>px = 50, py = 40\<rparr>])) =
     [StrokeRect 10 10 40 30 sampleState,
      Stroke [MoveTo 10 10, LineTo 30 80, LineTo 50 40] sampleState] \<and>
   painted (drawPath freshContext
      (samplePath Rectangle [\<lparr>px = 10, py = 10\<rparr>, \<lparr>px = 50, py = 40\<rparr>])) =
     [StrokeRect 10 10 40 30 sampleState,
      Stroke [MoveTo 10 10, LineTo 50 40] sampleState] \<and>
   painted (drawPath freshContext
      (samplePath Rectangle [\<lparr>px = 10, py = 10\<rparr>, \<lparr>px = 30, py = 80\<rparr>, \<lparr>px = 50, py = 40\<rparr>])) \<noteq>
   painted (drawPath freshContext
      (samplePath Rectangle [\<lparr>px = 10, py = 10\<rparr>, \<lparr>px = 50, py = 40\<rparr>]))"
proof -
  have t: "\<And>pts. tool (samplePath Rectangle pts) = Rectangle"
    and p: "\<And>pts. points (samplePath Rectangle pts) = pts"
    by (simp_all add: samplePath_def)
  show ?thesis
    by (simp add: drawPath_rectangle t p strokeState_sample polyline_def lineSegs_def
        painted_freshContext)
qed

text \<open>
  Claim C7, evaluated. The rectangle path with the points (10,10) and (50,40) is painted
  as the rectangle with corner (10,10), width 40 and height 30, and then as the stroked
  segment from (10,10) to (50,40), the polyline that the rectangle branch does not
  discard. The circle path with the points (0,0) and (3,4) is painted as one circle with
  centre (0,0) and radius 5.
\<close>

theorem rectangle_circle_rendering:
  "painted (drawPath freshContext
      (samplePath Rectangle [\<lparr>px = 10, py = 10\<rparr>, \<lparr>px = 50, py = 40\<rparr>])) =
     [StrokeRect 10 10 40 30 sampleState,
      Stroke [MoveTo 10 10, LineTo 50 40] sampleState] \<and>
   painted (drawPath freshContext
      (samplePath Circle [\<lparr>px = 0, py = 0\<rparr>, \<lparr>px = 3, py = 4\<rparr>])) =
     [Stroke [Arc 0 0 5 0 (2 * pi)] sampleState]"
proof -
  have t: "\<And>u pts. tool (samplePath u pts) = u"
    and p: "\<And>u pts. points (samplePath u pts) = pts"
    by (simp_all add: samplePath_def)
  have r: "painted (drawPath freshContext
      (samplePath Rectangle [\<lparr>px = 10, py = 10\<rparr>, \<lparr>px = 50, py = 40\<rparr>])) =
     [StrokeRect 10 10 40 30 sampleState,
      Stroke [MoveTo 10 10, LineTo 50 40] sampleState]"
    by (simp add: drawPath_rectangle t p strokeState_sample polyline_def lineSegs_def
        painted_freshContext)
  have c: "painted (drawPath freshContext
      (samplePath Circle [\<lparr>px = 0, py = 0\<rparr>, \<lparr>px = 3, py = 4\<rparr>])) =
     [Stroke [Arc 0 0 5 0 (2 * pi)] sampleState]"
    using sqrt_3_4
    by (simp add: drawPath_circle t p strokeState_sample Let_def painted_freshContext)
  from r c show ?thesis by (rule conjI)
qed

end
